theory Spec2Isabelle
  imports Main "HOL-Library.AList" "HOL-Library.Multiset"
begin

section \<open>Data model\<close>

text \<open>
  A cell of a table holds a value or is missing (pandas' \<open>NaN\<close>). A row of a DataFrame
  has a label; the labels of the rows, in order, are the index of the frame. The readers
  give a frame the default index \<open>0..n-1\<close> (\<open>range_index n\<close>), except that \<open>read_csv\<close>
  takes the first field of each row as its label when the rows have one field more than
  the header, so a frame may come with any index.
\<close>

datatype 'v cell = Val 'v | NaN

datatype row_label = IntLabel int | StrLabel string

text \<open>
  A DataFrame: its index and its columns in order, each a label with its cells. Column
  labels are strings. The readers make them unique (a repeated header is renamed), so
  the frames of interest satisfy \<open>wf_frame\<close>.
\<close>

record 'v dataframe =
  row_index :: "row_label list"
  columns :: "(string \<times> 'v cell list) list"

definition nrows :: "'v dataframe \<Rightarrow> nat" where
  "nrows d = length (row_index d)"

definition range_index :: "nat \<Rightarrow> row_label list" where
  "range_index n = map (\<lambda>i. IntLabel (int i)) [0..<n]"

definition labels :: "'v dataframe \<Rightarrow> string list" where
  "labels d = map fst (columns d)"

definition wf_frame :: "'v dataframe \<Rightarrow> bool" where
  "wf_frame d \<longleftrightarrow>
     distinct (labels d) \<and> list_all (\<lambda>c. length (snd c) = nrows d) (columns d)"

text \<open>
  \<open>df[c]\<close> for a label that is present: the cells of the column; as a Series it has the
  index of the frame. The engine reads a column only after it has checked or created it
  (\<open>swap_pair_reads_present\<close> below), so the \<open>KeyError\<close> of an absent label is never
  reached.
\<close>

definition getitem :: "'v dataframe \<Rightarrow> string \<Rightarrow> 'v cell list" where
  "getitem d c = the (map_of (columns d) c)"

text \<open>
  \<open>df[c] = s\<close> for a Series \<open>s\<close> that has the index of the frame, as \<open>df[c'].copy()\<close>
  has: the cells are written as they stand. An existing column is replaced where it
  stands, a new one is appended as the last column.
\<close>

definition setitem :: "'v dataframe \<Rightarrow> string \<Rightarrow> 'v cell list \<Rightarrow> 'v dataframe" where
  "setitem d c vs = d\<lparr>columns := AList.update c vs (columns d)\<rparr>"

text \<open>
  \<open>df[c] = s\<close> for a Series \<open>s\<close> whose index was renumbered \<open>0..len(s)-1\<close> by
  \<open>reset_index(drop=True)\<close>. pandas aligns \<open>s\<close> on the index of the frame: the row
  labelled \<open>l\<close> receives the cell that \<open>s\<close> has at label \<open>l\<close>, and \<open>NaN\<close> when \<open>s\<close> has no
  such label. So \<open>s\<close> is written as it stands only when the frame has the default index.
\<close>

definition align :: "row_label list \<Rightarrow> 'v cell list \<Rightarrow> 'v cell list" where
  "align idx vs =
     map (\<lambda>l. case l of
                 IntLabel i \<Rightarrow> if 0 \<le> i \<and> i < int (length vs) then vs ! nat i else NaN
               | StrLabel s \<Rightarrow> NaN) idx"

definition setitem_renumbered :: "'v dataframe \<Rightarrow> string \<Rightarrow> 'v cell list \<Rightarrow> 'v dataframe" where
  "setitem_renumbered d c vs = setitem d c (align (row_index d) vs)"

text \<open>\<open>df.drop(columns=[c], inplace=True)\<close> removes the column.\<close>

definition drop_column :: "'v dataframe \<Rightarrow> string \<Rightarrow> 'v dataframe" where
  "drop_column d c = d\<lparr>columns := AList.delete c (columns d)\<rparr>"

subsection \<open>Logging\<close>

text \<open>
  The log is the list of calls made on the root logger, oldest first, each with its
  level and its formatted message. Filtering by the configured level is not modelled.
\<close>

datatype level = DEBUG | INFO | WARNING | ERROR | CRITICAL

type_synonym log_record = "level \<times> string"

subsection \<open>Randomness\<close>

text \<open>
  \<open>random.randint(a, b)\<close> returns an integer of \<open>a..b\<close> chosen by the state of the
  global generator. The generator is a stream \<open>gen\<close> of raw outputs, the \<open>k\<close>-th call
  reading \<open>gen k\<close>; only the range of the result is fixed here, and every sequence of
  values of \<open>a..b\<close> comes from some stream.
\<close>

definition randint :: "nat \<Rightarrow> nat \<Rightarrow> nat \<Rightarrow> nat" where
  "randint a b r = a + r mod (b + 1 - a)"

text \<open>
  \<open>s.sample(frac=1, random_state=seed).reset_index(drop=True)\<close>: numpy seeded with
  \<open>seed\<close> chooses an order of the positions \<open>0..n-1\<close>, the cells are taken in that order
  and the index is renumbered. The order numpy chooses is the parameter \<open>smp\<close>
  (\<open>smp seed n\<close> for a series of \<open>n\<close> cells); \<open>permutation_sampler\<close> says that it is an
  order of all positions, each once.
\<close>

definition permutation_sampler :: "(nat \<Rightarrow> nat \<Rightarrow> nat list) \<Rightarrow> bool" where
  "permutation_sampler smp \<longleftrightarrow> (\<forall>seed n. mset (smp seed n) = mset [0..<n])"

definition sample_all :: "(nat \<Rightarrow> nat \<Rightarrow> nat list) \<Rightarrow> nat \<Rightarrow> 'c list \<Rightarrow> 'c list" where
  "sample_all smp seed vs = map (\<lambda>i. vs ! i) (smp seed (length vs))"

section \<open>The permutation engine: \<open>swap_data\<close>\<close>

text \<open>
  The state of a run: the frame being mutated, the number of calls made so far on the
  global random generator, and the log.
\<close>

record 'v run =
  frame :: "'v dataframe"
  rng_calls :: nat
  logged :: "log_record list"

definition temp_name :: "string \<Rightarrow> string" where
  "temp_name col2 = ''temp_'' @ col2"

definition not_found_msg :: "string \<Rightarrow> string \<Rightarrow> string" where
  "not_found_msg col1 col2 =
     ''Column(s) '' @ [CHR 0x27] @ col1 @ [CHR 0x27] @ '' or '' @ [CHR 0x27] @ col2 @ [CHR 0x27]
       @ '' not found in the DataFrame.''"

definition swapped_msg :: "string \<Rightarrow> string \<Rightarrow> string" where
  "swapped_msg col1 col2 =
     ''Swapped data between columns '' @ [CHR 0x27] @ col1 @ [CHR 0x27] @ '' and ''
       @ [CHR 0x27] @ col2 @ [CHR 0x27] @ ''.''"

text \<open>
  The first statement of a processed pair: the scratch column \<open>temp_<col2>\<close> receives the
  shuffled, renumbered cells of \<open>col2\<close>.
\<close>

definition store_shuffled ::
  "(nat \<Rightarrow> nat \<Rightarrow> nat list) \<Rightarrow> nat \<Rightarrow> string \<Rightarrow> 'v dataframe \<Rightarrow> 'v dataframe" where
  "store_shuffled smp seed col2 d =
     setitem_renumbered d (temp_name col2) (sample_all smp seed (getitem d col2))"

text \<open>
  The cells that a processed pair stores in the scratch column: the shuffled cells of
  \<open>col2\<close>, aligned on the index of the frame.
\<close>

definition scratch_cells ::
  "(nat \<Rightarrow> nat \<Rightarrow> nat list) \<Rightarrow> (nat \<Rightarrow> nat) \<Rightarrow> string \<Rightarrow> 'v run \<Rightarrow> 'v cell list" where
  "scratch_cells smp gen col2 st =
     align (row_index (frame st))
       (sample_all smp (randint 0 1000 (gen (rng_calls st))) (getitem (frame st) col2))"

text \<open>The body of the loop of \<open>swap_data\<close>, for one pair.\<close>

definition swap_pair ::
  "(nat \<Rightarrow> nat \<Rightarrow> nat list) \<Rightarrow> (nat \<Rightarrow> nat) \<Rightarrow> string \<times> string \<Rightarrow> 'v run \<Rightarrow> 'v run" where
  "swap_pair smp gen p st =
     (case p of (col1, col2) \<Rightarrow>
        if col1 \<notin> set (labels (frame st)) \<or> col2 \<notin> set (labels (frame st))
        then st\<lparr>logged := logged st @ [(ERROR, not_found_msg col1 col2)]\<rparr>
        else
          let temp_col = temp_name col2;
              seed = randint 0 1000 (gen (rng_calls st));
              d1 = store_shuffled smp seed col2 (frame st);
              d2 = setitem d1 col2 (getitem d1 col1);
              d3 = setitem d2 col1 (getitem d2 temp_col);
              d4 = drop_column d3 temp_col
          in \<lparr>frame = d4, rng_calls = Suc (rng_calls st),
              logged = logged st @ [(INFO, swapped_msg col1 col2)]\<rparr>)"

fun swap_data ::
  "(nat \<Rightarrow> nat \<Rightarrow> nat list) \<Rightarrow> (nat \<Rightarrow> nat) \<Rightarrow> (string \<times> string) list \<Rightarrow> 'v run \<Rightarrow> 'v run" where
  "swap_data smp gen [] st = st"
| "swap_data smp gen (p # ps) st = swap_data smp gen ps (swap_pair smp gen p st)"

section \<open>Configuration and the command line: \<open>validate_config\<close> and \<open>main\<close>\<close>

subsection \<open>Configuration values\<close>

text \<open>
  What \<open>yaml.safe_load\<close> returns, as far as \<open>validate_config\<close> tells values apart:
  \<open>None\<close>, booleans, integers, strings, lists and dictionaries. A dictionary is the list
  of its items and \<open>map_of\<close> is the lookup.
\<close>

datatype yaml =
  YNull | YBool bool | YInt int | YStr string | YList "yaml list" | YDict "(yaml \<times> yaml) list"

definition must_be_dict_msg :: string where
  "must_be_dict_msg = ''Configuration file must be a dictionary.''"

definition must_contain_msg :: string where
  "must_contain_msg =
     ''Configuration file must contain '' @ [CHR 0x27] @ ''columns_to_swap'' @ [CHR 0x27] @ ''.''"

definition must_be_list_msg :: string where
  "must_be_list_msg = [CHR 0x27] @ ''columns_to_swap'' @ [CHR 0x27] @ '' must be a list.''"

definition each_element_msg :: string where
  "each_element_msg =
     ''Each element in '' @ [CHR 0x27] @ ''columns_to_swap'' @ [CHR 0x27]
       @ '' must be a list of two column names.''"

text \<open>
  The loop of \<open>validate_config\<close> over the elements of \<open>columns_to_swap\<close>: it returns
  \<open>False\<close> at the first element that is not a list or whose length is not 2.
\<close>

fun check_pairs :: "yaml list \<Rightarrow> bool" where
  "check_pairs [] = True"
| "check_pairs (pair # rest) =
     (case pair of
        YList xs \<Rightarrow> if length xs \<noteq> 2 then False else check_pairs rest
      | _ \<Rightarrow> False)"

text \<open>\<open>validate_config\<close> returns its verdict; the second component is what it logged.\<close>

definition validate_config :: "yaml \<Rightarrow> bool \<times> log_record list" where
  "validate_config config =
     (case config of
        YDict items \<Rightarrow>
          (case map_of items (YStr ''columns_to_swap'') of
             None \<Rightarrow> (False, [(ERROR, must_contain_msg)])
           | Some columns_to_swap \<Rightarrow>
               (case columns_to_swap of
                  YList ps \<Rightarrow>
                    if check_pairs ps then (True, [])
                    else (False, [(ERROR, each_element_msg)])
                | _ \<Rightarrow> (False, [(ERROR, must_be_list_msg)])))
      | _ \<Rightarrow> (False, [(ERROR, must_be_dict_msg)]))"

subsection \<open>The environment of \<open>main\<close>\<close>

text \<open>
  \<open>main\<close> reads files through Python's \<open>open\<close>, \<open>yaml\<close> and pandas. What these return
  for the files of a run is the environment: \<open>Inl\<close> an exception raised, \<open>Inr\<close> the value
  returned. \<open>FileNotFoundError\<close> and \<open>pandas.errors.EmptyDataError\<close> have their own
  handlers in \<open>main\<close>; any other exception is \<open>OtherError\<close>. The string is \<open>str(e)\<close>.
\<close>

datatype pyexn = FileNotFoundError string | EmptyDataError | OtherError string

text \<open>
  \<open>config_names\<close> reads the pairs of a validated configuration as pairs of column names,
  when every element of every pair is a string. \<open>swap_data\<close> above is the engine on such
  pairs. What the engine does with a name that is not a string depends on how pandas
  compares and hashes it; it is left to the environment (\<open>swap_other_names\<close>).
\<close>

fun config_names :: "yaml list \<Rightarrow> (string \<times> string) list option" where
  "config_names [] = Some []"
| "config_names (p # ps) =
     (case p of
        YList [YStr col1, YStr col2] \<Rightarrow>
          (case config_names ps of Some r \<Rightarrow> Some ((col1, col2) # r) | None \<Rightarrow> None)
      | _ \<Rightarrow> None)"

record 'v env =
  data_file :: string
  config_file :: string
  output_file :: string
  load_config :: "pyexn + yaml"
  file_extension :: string
  read_csv :: "pyexn + 'v dataframe"
  read_excel :: "pyexn + 'v dataframe"
  swap_other_names :: "'v dataframe \<Rightarrow> yaml list \<Rightarrow> log_record list \<Rightarrow> pyexn + 'v run"

text \<open>
  The fields: the three paths of the command line (\<open>output_file\<close> with its default
  already applied); \<open>load_config\<close>, the result of opening \<open>config_file\<close> and of
  \<open>yaml.safe_load\<close>; \<open>file_extension\<close>, the value of
  \<open>os.path.splitext(args.data_file)[1].lower()\<close>; \<open>read_csv\<close> and \<open>read_excel\<close>, the
  result of the pandas reader on \<open>data_file\<close>. Writing the output with \<open>to_csv\<close> is taken
  to succeed.

  The outcome of a run: what was logged, and the file \<open>to_csv\<close> wrote, if any, as its
  path and the table written.
\<close>

record 'v outcome =
  out_log :: "log_record list"
  written :: "(string \<times> 'v dataframe) option"

subsection \<open>Messages\<close>

function str_nat :: "nat \<Rightarrow> string" where
  "str_nat n =
     (if n < 10 then [''0123456789'' ! n]
      else str_nat (n div 10) @ [''0123456789'' ! (n mod 10)])"
  by pat_completeness auto
termination
  by (relation "measure (\<lambda>n. n)") auto

definition loaded_msg :: "string \<Rightarrow> 'v dataframe \<Rightarrow> string" where
  "loaded_msg path d =
     ''Loaded data from '' @ [CHR 0x27] @ path @ [CHR 0x27] @ '' with shape: (''
       @ str_nat (nrows d) @ '', '' @ str_nat (length (columns d)) @ '')''"

definition saved_msg :: "string \<Rightarrow> string" where
  "saved_msg path = ''Masked data saved to '' @ [CHR 0x27] @ path @ [CHR 0x27]"

definition empty_msg :: "string \<Rightarrow> string" where
  "empty_msg path = ''The data file '' @ [CHR 0x27] @ path @ [CHR 0x27] @ '' is empty.''"

definition completed_msg :: string where
  "completed_msg = ''dm-data-attribute-swapper completed.''"

subsection \<open>\<open>main\<close>\<close>

text \<open>
  The three \<open>except\<close> clauses of \<open>main\<close>, followed by the last statement of \<open>main\<close>.
  Nothing is written on this path.
\<close>

definition handle_exception :: "'v env \<Rightarrow> pyexn \<Rightarrow> log_record list \<Rightarrow> 'v outcome" where
  "handle_exception e x lg =
     \<lparr>out_log = lg
        @ (case x of
             FileNotFoundError m \<Rightarrow> [(ERROR, ''File not found: '' @ m)]
           | EmptyDataError \<Rightarrow> [(ERROR, empty_msg (data_file e))]
           | OtherError m \<Rightarrow>
               [(ERROR, ''An error occurred: '' @ m), (ERROR, ''Detailed error information:'')])
        @ [(INFO, completed_msg)],
      written = None\<rparr>"

text \<open>
  The reader chosen by the extension; \<open>None\<close> when the extension is not supported.
\<close>

definition load_data :: "'v env \<Rightarrow> (pyexn + 'v dataframe) option" where
  "load_data e =
     (if file_extension e = ''.csv'' then Some (read_csv e)
      else if file_extension e = ''.xlsx'' \<or> file_extension e = ''.xls'' then Some (read_excel e)
      else None)"

text \<open>
  The call \<open>swap_data(df, config["columns_to_swap"])\<close> of \<open>main\<close>; the global generator
  has not been used before. \<open>main\<close> makes the call on a validated configuration only, so
  the two last branches (no list under the key) are never taken.
\<close>

definition run_swap ::
  "(nat \<Rightarrow> nat \<Rightarrow> nat list) \<Rightarrow> (nat \<Rightarrow> nat) \<Rightarrow> 'v env \<Rightarrow> 'v dataframe \<Rightarrow> yaml
     \<Rightarrow> log_record list \<Rightarrow> pyexn + 'v run" where
  "run_swap smp gen e d config lg =
     (case config of
        YDict items \<Rightarrow>
          (case map_of items (YStr ''columns_to_swap'') of
             Some (YList ps) \<Rightarrow>
               (case config_names ps of
                  Some names \<Rightarrow>
                    Inr (swap_data smp gen names \<lparr>frame = d, rng_calls = 0, logged = lg\<rparr>)
                | None \<Rightarrow> swap_other_names e d ps lg)
           | _ \<Rightarrow> Inl (OtherError ''columns_to_swap''))
      | _ \<Rightarrow> Inl (OtherError ''columns_to_swap''))"

text \<open>
  \<open>main\<close> from its first log record on. The parser and the log level are left out: they
  decide neither what is loaded nor what is written.
\<close>

definition main ::
  "(nat \<Rightarrow> nat \<Rightarrow> nat list) \<Rightarrow> (nat \<Rightarrow> nat) \<Rightarrow> 'v env \<Rightarrow> 'v outcome" where
  "main smp gen e =
     (let lg0 = [(INFO, ''Starting dm-data-attribute-swapper'')] in
      case load_config e of
        Inl x \<Rightarrow> handle_exception e x lg0
      | Inr config \<Rightarrow>
          let lg1 = lg0 @ snd (validate_config config) in
          if \<not> fst (validate_config config)
          then \<lparr>out_log = lg1 @ [(ERROR, ''Invalid configuration file. Exiting.'')],
                written = None\<rparr>
          else
            (case load_data e of
               None \<Rightarrow>
                 \<lparr>out_log = lg1 @ [(ERROR,
                    ''Unsupported file format. Only CSV and Excel files are supported.'')],
                  written = None\<rparr>
             | Some (Inl x) \<Rightarrow> handle_exception e x lg1
             | Some (Inr d) \<Rightarrow>
                 (case run_swap smp gen e d config
                         (lg1 @ [(INFO, loaded_msg (data_file e) d)]) of
                    Inl x \<Rightarrow> handle_exception e x (lg1 @ [(INFO, loaded_msg (data_file e) d)])
                  | Inr r \<Rightarrow>
                      \<lparr>out_log = logged r
                         @ [(INFO, saved_msg (output_file e)), (INFO, completed_msg)],
                       written = Some (output_file e, frame r)\<rparr>)))"

section \<open>Properties of the engine\<close>

subsection \<open>Frames as lookup functions\<close>

lemma temp_name_neq: "temp_name c \<noteq> c"
  by (simp add: temp_name_def)

lemma lookup_setitem:
  "map_of (columns (setitem d c vs)) = (map_of (columns d))(c \<mapsto> vs)"
  by (simp add: setitem_def update_conv')

lemma lookup_drop_column:
  "map_of (columns (drop_column d c)) = (map_of (columns d))(c := None)"
  by (simp add: drop_column_def delete_conv')

lemma in_labels_iff: "c \<in> set (labels d) \<longleftrightarrow> map_of (columns d) c \<noteq> None"
  by (simp add: labels_def map_of_eq_None_iff)

lemma getitem_lookup: "map_of (columns d) c = Some vs \<Longrightarrow> getitem d c = vs"
  by (simp add: getitem_def)

lemma row_index_setitem: "row_index (setitem d c vs) = row_index d"
  by (simp add: setitem_def)

lemma row_index_drop_column: "row_index (drop_column d c) = row_index d"
  by (simp add: drop_column_def)

lemma labels_setitem: "set (labels (setitem d c vs)) = insert c (set (labels d))"
  by (simp add: labels_def setitem_def dom_update)

lemma labels_setitem_present:
  "c \<in> set (labels d) \<Longrightarrow> labels (setitem d c vs) = labels d"
  by (simp add: labels_def setitem_def update_keys)

lemma labels_drop_column: "labels (drop_column d c) = removeAll c (labels d)"
  by (simp add: labels_def drop_column_def delete_keys)

subsection \<open>Aligning a renumbered series\<close>

lemma length_align: "length (align idx vs) = length idx"
  by (simp add: align_def)

lemma align_range_index: "align (range_index (length vs)) vs = vs"
proof -
  have "align (range_index (length vs)) vs = map (\<lambda>i. vs ! i) [0..<length vs]"
    by (simp add: align_def range_index_def)
  then show ?thesis by (simp add: map_nth)
qed

subsection \<open>Sampling a whole column\<close>

lemma mset_sample_all:
  assumes "permutation_sampler smp"
  shows "mset (sample_all smp seed vs) = mset vs"
proof -
  have "mset (smp seed (length vs)) = mset [0..<length vs]"
    using assms by (simp add: permutation_sampler_def)
  then have "image_mset (\<lambda>i. vs ! i) (mset (smp seed (length vs)))
      = image_mset (\<lambda>i. vs ! i) (mset [0..<length vs])"
    by simp
  then have "mset (map (\<lambda>i. vs ! i) (smp seed (length vs)))
      = mset (map (\<lambda>i. vs ! i) [0..<length vs])"
    by simp
  then show ?thesis by (simp add: sample_all_def map_nth)
qed

lemma length_sample_all:
  "permutation_sampler smp \<Longrightarrow> length (sample_all smp seed vs) = length vs"
  using mset_sample_all [of smp seed vs] by (metis size_mset)


subsection \<open>One pair\<close>

lemma swap_pair_skip:
  "col1 \<notin> set (labels (frame st)) \<or> col2 \<notin> set (labels (frame st)) \<Longrightarrow>
   swap_pair smp gen (col1, col2) st
     = st\<lparr>logged := logged st @ [(ERROR, not_found_msg col1 col2)]\<rparr>"
  by (simp add: swap_pair_def)

lemma lookup_store_shuffled:
  "map_of (columns (store_shuffled smp seed col2 d))
     = (map_of (columns d))
         (temp_name col2 \<mapsto> align (row_index d) (sample_all smp seed (getitem d col2)))"
  by (simp add: store_shuffled_def setitem_renumbered_def lookup_setitem)

lemma swap_pair_lookup:
  assumes "map_of (columns (frame st)) col1 = Some v1"
    and "map_of (columns (frame st)) col2 = Some v2"
  shows "map_of (columns (frame (swap_pair smp gen (col1, col2) st))) =
    (let s = scratch_cells smp gen col2 st; t = temp_name col2
     in ((map_of (columns (frame st)))
           (t \<mapsto> s, col2 \<mapsto> (if col1 = t then s else v1), col1 \<mapsto> s))(t := None))"
proof -
  have p: "col1 \<in> set (labels (frame st))" "col2 \<in> set (labels (frame st))"
    using assms by (simp_all add: in_labels_iff)
  show ?thesis
    using p assms temp_name_neq [of col2]
    by (auto simp add: swap_pair_def Let_def lookup_setitem lookup_drop_column
        lookup_store_shuffled getitem_def scratch_cells_def fun_upd_def)
qed

lemma swap_pair_row_index:
  "row_index (frame (swap_pair smp gen p st)) = row_index (frame st)"
  by (cases p)
    (simp add: swap_pair_def Let_def row_index_setitem row_index_drop_column
      store_shuffled_def setitem_renumbered_def)


subsection \<open>Labels, untouched columns and well-formed frames\<close>

text \<open>
  Every read and the final \<open>drop\<close> of a processed pair name a column that is present:
  \<open>col2\<close> in the frame, \<open>col1\<close> after the scratch column is written, the scratch column
  after \<open>col2\<close> is written and again when it is dropped.
\<close>

lemma swap_pair_reads_present:
  assumes "col1 \<in> set (labels d)" and "col2 \<in> set (labels d)"
  shows "col1 \<in> set (labels (store_shuffled smp seed col2 d))
       \<and> temp_name col2 \<in> set (labels (setitem (store_shuffled smp seed col2 d) col2 v))
       \<and> temp_name col2
           \<in> set (labels (setitem (setitem (store_shuffled smp seed col2 d) col2 v) col1 w))"
  using assms by (simp add: labels_setitem store_shuffled_def setitem_renumbered_def)

lemma swap_pair_labels:
  "labels (frame (swap_pair smp gen (col1, col2) st))
     = (if col1 \<in> set (labels (frame st)) \<and> col2 \<in> set (labels (frame st))
        then removeAll (temp_name col2) (labels (frame st)) else labels (frame st))"
proof (cases "col1 \<in> set (labels (frame st)) \<and> col2 \<in> set (labels (frame st))")
  case True
  let ?t = "temp_name col2"
  let ?d1 = "store_shuffled smp (randint 0 1000 (gen (rng_calls st))) col2 (frame st)"
  let ?d2 = "setitem ?d1 col2 (getitem ?d1 col1)"
  let ?d3 = "setitem ?d2 col1 (getitem ?d2 ?t)"
  have fr: "frame (swap_pair smp gen (col1, col2) st) = drop_column ?d3 ?t"
    using True by (simp add: swap_pair_def Let_def)
  have k1: "labels ?d1 = (if ?t \<in> set (labels (frame st)) then labels (frame st)
      else labels (frame st) @ [?t])"
    by (simp add: labels_def store_shuffled_def setitem_renumbered_def setitem_def update_keys)
  have in1: "col2 \<in> set (labels ?d1)" "col1 \<in> set (labels ?d1)"
    using True by (simp_all add: store_shuffled_def setitem_renumbered_def labels_setitem)
  have k2: "labels ?d2 = labels ?d1" using in1(1) by (rule labels_setitem_present)
  have k3: "labels ?d3 = labels ?d1"
    using in1(2) k2 by (simp add: labels_setitem_present)
  have "labels (drop_column ?d3 ?t) = removeAll ?t (labels (frame st))"
    unfolding labels_drop_column k3 k1 by simp
  then show ?thesis using True fr by simp
next
  case False
  then have d: "col1 \<notin> set (labels (frame st)) \<or> col2 \<notin> set (labels (frame st))"
    by blast
  show ?thesis unfolding swap_pair_skip [OF d] using False by auto
qed

lemma swap_data_labels_subset:
  "set (labels (frame (swap_data smp gen ps st))) \<subseteq> set (labels (frame st))"
proof (induction ps arbitrary: st)
  case Nil
  show ?case by simp
next
  case (Cons p ps)
  obtain col1 col2 where p: "p = (col1, col2)" by (cases p)
  have "set (labels (frame (swap_pair smp gen p st))) \<subseteq> set (labels (frame st))"
    unfolding p swap_pair_labels by auto
  with Cons.IH [of "swap_pair smp gen p st"] show ?case by auto
qed

lemma swap_pair_untouched:
  assumes "c \<noteq> col1" and "c \<noteq> col2" and "c \<noteq> temp_name col2"
  shows "map_of (columns (frame (swap_pair smp gen (col1, col2) st))) c
       = map_of (columns (frame st)) c"
proof (cases "col1 \<in> set (labels (frame st)) \<and> col2 \<in> set (labels (frame st))")
  case True
  then obtain v1 v2 where v: "map_of (columns (frame st)) col1 = Some v1"
      "map_of (columns (frame st)) col2 = Some v2"
    by (auto simp add: in_labels_iff)
  show ?thesis using assms by (simp add: swap_pair_lookup [OF v] Let_def)
next
  case False
  then have d: "col1 \<notin> set (labels (frame st)) \<or> col2 \<notin> set (labels (frame st))"
    by blast
  show ?thesis unfolding swap_pair_skip [OF d] by simp
qed

lemma swap_data_untouched:
  assumes "c \<notin> fst ` set ps" and "c \<notin> snd ` set ps" and "c \<notin> temp_name ` snd ` set ps"
  shows "map_of (columns (frame (swap_data smp gen ps st))) c = map_of (columns (frame st)) c"
  using assms
proof (induction ps arbitrary: st)
  case Nil
  show ?case by simp
next
  case (Cons p ps)
  obtain col1 col2 where p: "p = (col1, col2)" by (cases p)
  have "map_of (columns (frame (swap_pair smp gen p st))) c = map_of (columns (frame st)) c"
    unfolding p using Cons.prems by (intro swap_pair_untouched) (auto simp add: p)
  moreover have "map_of (columns (frame (swap_data smp gen ps (swap_pair smp gen p st)))) c
      = map_of (columns (frame (swap_pair smp gen p st))) c"
    using Cons.prems by (intro Cons.IH) auto
  ultimately show ?case by simp
qed

lemma swap_data_append:
  "swap_data smp gen (ps @ qs) st = swap_data smp gen qs (swap_data smp gen ps st)"
  by (induction ps arbitrary: st) simp_all

lemma swap_data_row_index:
  "row_index (frame (swap_data smp gen ps st)) = row_index (frame st)"
  by (induction ps arbitrary: st) (simp_all add: swap_pair_row_index)

lemma list_all_update:
  "P (k, v) \<Longrightarrow> list_all P al \<Longrightarrow> list_all P (AList.update k v al)"
  by (induction al) auto

lemma list_all_delete: "list_all P al \<Longrightarrow> list_all P (AList.delete k al)"
  by (simp add: AList.delete_eq list_all_iff)

lemma wf_frame_setitem:
  "wf_frame d \<Longrightarrow> length vs = nrows d \<Longrightarrow> wf_frame (setitem d c vs)"
  by (simp add: wf_frame_def setitem_def labels_def nrows_def distinct_update list_all_update)

lemma wf_frame_drop_column: "wf_frame d \<Longrightarrow> wf_frame (drop_column d c)"
  by (simp add: wf_frame_def drop_column_def labels_def nrows_def distinct_delete list_all_delete)

lemma wf_frame_length:
  assumes "wf_frame d" and "c \<in> set (labels d)"
  shows "length (getitem d c) = nrows d"
proof -
  obtain vs where vs: "map_of (columns d) c = Some vs"
    using assms(2) by (auto simp add: in_labels_iff)
  then have "(c, vs) \<in> set (columns d)" by (rule map_of_SomeD)
  then have "length vs = nrows d"
    using assms(1) by (auto simp add: wf_frame_def list_all_iff)
  then show ?thesis using vs by (simp add: getitem_def)
qed

lemma wf_frame_store_shuffled: "wf_frame d \<Longrightarrow> wf_frame (store_shuffled smp seed col2 d)"
  by (simp add: store_shuffled_def setitem_renumbered_def wf_frame_setitem length_align nrows_def)

lemma swap_pair_wf:
  assumes "wf_frame (frame st)"
  shows "wf_frame (frame (swap_pair smp gen p st))"
proof -
  obtain col1 col2 where p: "p = (col1, col2)" by (cases p)
  show ?thesis
  proof (cases "col1 \<in> set (labels (frame st)) \<and> col2 \<in> set (labels (frame st))")
    case True
    define d1 where "d1 = store_shuffled smp (randint 0 1000 (gen (rng_calls st))) col2 (frame st)"
    define d2 where "d2 = setitem d1 col2 (getitem d1 col1)"
    define d3 where "d3 = setitem d2 col1 (getitem d2 (temp_name col2))"
    have fr: "frame (swap_pair smp gen p st) = drop_column d3 (temp_name col2)"
      using True by (simp add: p swap_pair_def Let_def d1_def d2_def d3_def)
    have w1: "wf_frame d1"
      using assms by (simp add: d1_def wf_frame_store_shuffled)
    have pres: "col1 \<in> set (labels d1)" "temp_name col2 \<in> set (labels d2)"
      using swap_pair_reads_present [of col1 "frame st" col2] True
      by (simp_all add: d1_def d2_def)
    have n: "nrows d2 = nrows d1"
      by (simp add: d2_def nrows_def row_index_setitem)
    have w2: "wf_frame d2"
      using w1 pres(1) by (simp add: d2_def wf_frame_setitem wf_frame_length)
    have w3: "wf_frame d3"
      using w2 pres(2) by (simp add: d3_def wf_frame_setitem wf_frame_length)
    show ?thesis using w3 by (simp add: fr wf_frame_drop_column)
  next
    case False
    then have d: "col1 \<notin> set (labels (frame st)) \<or> col2 \<notin> set (labels (frame st))"
      by blast
    show ?thesis unfolding p swap_pair_skip [OF d] using assms by simp
  qed
qed

subsection \<open>The assignment made for one pair\<close>

lemma swap_pair_col1:
  assumes "col1 \<in> set (labels (frame st))" and "col2 \<in> set (labels (frame st))"
    and "col1 \<noteq> temp_name col2"
  shows "map_of (columns (frame (swap_pair smp gen (col1, col2) st))) col1
       = Some (scratch_cells smp gen col2 st)"
proof -
  obtain v1 v2 where v: "map_of (columns (frame st)) col1 = Some v1"
      "map_of (columns (frame st)) col2 = Some v2"
    using assms(1,2) by (auto simp add: in_labels_iff)
  show ?thesis
    using assms(3) by (simp add: swap_pair_lookup [OF v] Let_def)
qed

lemma swap_pair_col2:
  assumes "col1 \<in> set (labels (frame st))" and "col2 \<in> set (labels (frame st))"
    and "col1 \<noteq> col2" and "col1 \<noteq> temp_name col2"
  shows "map_of (columns (frame (swap_pair smp gen (col1, col2) st))) col2
       = map_of (columns (frame st)) col1"
proof -
  obtain v1 v2 where v: "map_of (columns (frame st)) col1 = Some v1"
      "map_of (columns (frame st)) col2 = Some v2"
    using assms(1,2) by (auto simp add: in_labels_iff)
  show ?thesis
    using assms(3,4) temp_name_neq [of col2] v by (simp add: swap_pair_lookup [OF v] Let_def)
qed

text \<open>
  On a well-formed frame with the default index, the scratch cells are the shuffled cells
  of \<open>col2\<close> as they stand.
\<close>

lemma scratch_cells_default_index:
  assumes "wf_frame (frame st)" and "col2 \<in> set (labels (frame st))"
    and "row_index (frame st) = range_index (nrows (frame st))"
    and "permutation_sampler smp"
  shows "scratch_cells smp gen col2 st
       = sample_all smp (randint 0 1000 (gen (rng_calls st))) (getitem (frame st) col2)"
proof -
  let ?s = "sample_all smp (randint 0 1000 (gen (rng_calls st))) (getitem (frame st) col2)"
  have "length ?s = nrows (frame st)"
    using assms(1,2,4) by (simp add: length_sample_all wf_frame_length)
  then have "row_index (frame st) = range_index (length ?s)" using assms(3) by simp
  then show ?thesis unfolding scratch_cells_def by (simp add: align_range_index)
qed

text \<open>
  What claim C1 describes holds on a frame with the default index, for a pair of two
  different existing columns whose first is not the scratch name of the second: \<open>col2\<close>
  receives the cells \<open>col1\<close> had, in their order, and \<open>col1\<close> receives the cells \<open>col2\<close>
  had, in the order drawn.
\<close>

lemma swap_pair_default_index:
  assumes "col1 \<in> set (labels (frame st))" and "col2 \<in> set (labels (frame st))"
    and "col1 \<noteq> col2" and "col1 \<noteq> temp_name col2"
    and "wf_frame (frame st)" and "row_index (frame st) = range_index (nrows (frame st))"
    and "permutation_sampler smp"
  shows "getitem (frame (swap_pair smp gen (col1, col2) st)) col2 = getitem (frame st) col1
       \<and> getitem (frame (swap_pair smp gen (col1, col2) st)) col1
           = sample_all smp (randint 0 1000 (gen (rng_calls st))) (getitem (frame st) col2)"
  using swap_pair_col1 [OF assms(1,2,4), of smp gen] swap_pair_col2 [OF assms(1-4), of smp gen]
    scratch_cells_default_index [OF assms(5) assms(2) assms(6,7), of gen]
  by (simp add: getitem_def)

text \<open>
  Claim C1 at its failing input. The frame has the row labels 0, 2, 5, as \<open>read_csv\<close>
  builds it from rows that have one field more than the header. Both columns of the
  pair \<open>(a, b)\<close> exist. After the pair, \<open>b\<close> holds the cells \<open>a\<close> had, but \<open>a\<close> is not a
  permutation of the cells \<open>b\<close> had: the scratch series is renumbered \<open>0, 1, 2\<close> and
  aligned on the labels \<open>0, 2, 5\<close>, so one cell of \<open>b\<close> is lost and the last row is
  missing, with the order \<open>1, 0, 2\<close> and also with the order \<open>0, 1, 2\<close> that leaves the
  cells in place.
\<close>

theorem swap_pair_assignment_failing_input:
  "(\<forall>gen. columns (frame (swap_data (\<lambda>seed n. [1, 0, 2]) gen [(''a'', ''b'')]
        \<lparr>frame = \<lparr>row_index = [IntLabel 0, IntLabel 2, IntLabel 5],
           columns = [(''a'', [Val 1, Val 2, Val (3 :: int)]), (''b'', [Val 4, Val 5, Val 6])]\<rparr>,
         rng_calls = 0, logged = []\<rparr>))
      = [(''a'', [Val 5, Val 6, NaN]), (''b'', [Val 1, Val 2, Val 3])])
   \<and> (\<forall>gen. columns (frame (swap_data (\<lambda>seed n. [0, 1, 2]) gen [(''a'', ''b'')]
        \<lparr>frame = \<lparr>row_index = [IntLabel 0, IntLabel 2, IntLabel 5],
           columns = [(''a'', [Val 1, Val 2, Val (3 :: int)]), (''b'', [Val 4, Val 5, Val 6])]\<rparr>,
         rng_calls = 0, logged = []\<rparr>))
      = [(''a'', [Val 4, Val 6, NaN]), (''b'', [Val 1, Val 2, Val 3])])"
  by (simp add: swap_pair_def Let_def labels_def temp_name_def setitem_def drop_column_def
      getitem_def sample_all_def store_shuffled_def setitem_renumbered_def align_def)

subsection \<open>Multisets of values\<close>




subsection \<open>The order drawn for a pair\<close>












subsection \<open>Columns that no pair names\<close>

text \<open>
  A column that no pair names, and that is not the scratch name \<open>temp_<col2>\<close> of a
  pair, is the same before and after the run (\<open>swap_data_untouched\<close> above). The scratch
  name is the exception.

  Claim C10. Let the frame already have a column named \<open>temp_<col2>\<close>, and let the pair
  \<open>(col1, col2)\<close> of two other, different columns be processed. The first statement
  creates no column: it overwrites the cells of the existing column \<open>temp_<col2>\<close> with
  the scratch cells. After the pair, the frame has the columns it had, in their order,
  but for that one, which is dropped; \<open>col2\<close> holds the cells \<open>col1\<close> had, \<open>col1\<close> holds
  the scratch cells, and every other column is as it was. The column is absent from the
  frame \<open>swap_data\<close> returns, whatever pairs follow.
\<close>

theorem swap_data_drops_scratch_name:
  assumes "col1 \<in> set (labels (frame st))" and "col2 \<in> set (labels (frame st))"
    and "map_of (columns (frame st)) (temp_name col2) = Some old"
    and "col1 \<noteq> temp_name col2" and "col1 \<noteq> col2"
  shows "labels (store_shuffled smp (randint 0 1000 (gen (rng_calls st))) col2 (frame st))
           = labels (frame st)
       \<and> getitem (store_shuffled smp (randint 0 1000 (gen (rng_calls st))) col2 (frame st))
             (temp_name col2)
           = scratch_cells smp gen col2 st
       \<and> labels (frame (swap_pair smp gen (col1, col2) st))
           = removeAll (temp_name col2) (labels (frame st))
       \<and> getitem (frame (swap_pair smp gen (col1, col2) st)) col2 = getitem (frame st) col1
       \<and> getitem (frame (swap_pair smp gen (col1, col2) st)) col1
           = scratch_cells smp gen col2 st
       \<and> (\<forall>c. c \<noteq> col1 \<and> c \<noteq> col2 \<and> c \<noteq> temp_name col2 \<longrightarrow>
            map_of (columns (frame (swap_pair smp gen (col1, col2) st))) c
              = map_of (columns (frame st)) c)
       \<and> temp_name col2 \<in> set (labels (frame st))
       \<and> temp_name col2 \<notin> set (labels (frame (swap_data smp gen ((col1, col2) # ps) st)))"
proof -
  let ?seed = "randint 0 1000 (gen (rng_calls st))"
  let ?out = "frame (swap_pair smp gen (col1, col2) st)"
  have t: "temp_name col2 \<in> set (labels (frame st))"
    using assms(3) by (simp add: in_labels_iff)
  have a: "labels (store_shuffled smp ?seed col2 (frame st)) = labels (frame st)"
    using t by (simp add: store_shuffled_def setitem_renumbered_def labels_setitem_present)
  have b: "getitem (store_shuffled smp ?seed col2 (frame st)) (temp_name col2)
      = scratch_cells smp gen col2 st"
    by (simp add: getitem_def lookup_store_shuffled scratch_cells_def)
  have c: "labels ?out = removeAll (temp_name col2) (labels (frame st))"
    using assms(1,2) by (simp add: swap_pair_labels)
  have d: "getitem ?out col2 = getitem (frame st) col1"
    using swap_pair_col2 [OF assms(1,2) assms(5,4), of smp gen] by (simp add: getitem_def)
  have e: "getitem ?out col1 = scratch_cells smp gen col2 st"
    using swap_pair_col1 [OF assms(1,2,4), of smp gen] by (simp add: getitem_def)
  have f: "map_of (columns ?out) c = map_of (columns (frame st)) c"
    if "c \<noteq> col1 \<and> c \<noteq> col2 \<and> c \<noteq> temp_name col2" for c
    using that by (intro swap_pair_untouched) simp_all
  have "temp_name col2 \<notin> set (labels ?out)" unfolding c by simp
  then have g: "temp_name col2
      \<notin> set (labels (frame (swap_data smp gen ((col1, col2) # ps) st)))"
    using swap_data_labels_subset [of smp gen ps "swap_pair smp gen (col1, col2) st"] by auto
  show ?thesis using a b c d e f t g by blast
qed

theorem swap_data_drops_scratch_name_witness:
  "''a'' \<in> set (labels (frame \<lparr>frame = \<lparr>row_index = range_index 2,
        columns = [(''a'', [Val 1, Val (2 :: int)]), (''temp_b'', [Val 5, Val 6]),
          (''b'', [Val 3, Val 4]), (''c'', [Val 7, Val 8])]\<rparr>, rng_calls = 0, logged = []\<rparr>))
   \<and> ''b'' \<in> set (labels (frame \<lparr>frame = \<lparr>row_index = range_index 2,
        columns = [(''a'', [Val 1, Val (2 :: int)]), (''temp_b'', [Val 5, Val 6]),
          (''b'', [Val 3, Val 4]), (''c'', [Val 7, Val 8])]\<rparr>, rng_calls = 0, logged = []\<rparr>))
   \<and> map_of (columns (frame \<lparr>frame = \<lparr>row_index = range_index 2,
        columns = [(''a'', [Val 1, Val (2 :: int)]), (''temp_b'', [Val 5, Val 6]),
          (''b'', [Val 3, Val 4]), (''c'', [Val 7, Val 8])]\<rparr>, rng_calls = 0, logged = []\<rparr>))
        (temp_name ''b'') = Some [Val 5, Val 6]
   \<and> ''a'' \<noteq> temp_name ''b'' \<and> ''a'' \<noteq> ''b''
   \<and> columns (store_shuffled (\<lambda>seed n. [1, 0]) (randint 0 1000 5) ''b''
        \<lparr>row_index = range_index 2,
        columns = [(''a'', [Val 1, Val (2 :: int)]), (''temp_b'', [Val 5, Val 6]),
          (''b'', [Val 3, Val 4]), (''c'', [Val 7, Val 8])]\<rparr>)
       = [(''a'', [Val 1, Val 2]), (''temp_b'', [Val 4, Val 3]),
          (''b'', [Val 3, Val 4]), (''c'', [Val 7, Val 8])]
   \<and> columns (frame (swap_data (\<lambda>seed n. [1, 0]) (\<lambda>k. 5) [(''a'', ''b'')]
        \<lparr>frame = \<lparr>row_index = range_index 2,
        columns = [(''a'', [Val 1, Val (2 :: int)]), (''temp_b'', [Val 5, Val 6]),
          (''b'', [Val 3, Val 4]), (''c'', [Val 7, Val 8])]\<rparr>, rng_calls = 0, logged = []\<rparr>))
       = [(''a'', [Val 4, Val 3]), (''b'', [Val 1, Val 2]), (''c'', [Val 7, Val 8])]
   \<and> ''temp_b'' \<notin> set (labels (frame (swap_data (\<lambda>seed n. [1, 0]) (\<lambda>k. 5) [(''a'', ''b'')]
        \<lparr>frame = \<lparr>row_index = range_index 2,
        columns = [(''a'', [Val 1, Val (2 :: int)]), (''temp_b'', [Val 5, Val 6]),
          (''b'', [Val 3, Val 4]), (''c'', [Val 7, Val 8])]\<rparr>, rng_calls = 0, logged = []\<rparr>)))"
proof -
  define st :: "int run" where "st = \<lparr>frame = \<lparr>row_index = range_index 2,
        columns = [(''a'', [Val 1, Val 2]), (''temp_b'', [Val 5, Val 6]),
          (''b'', [Val 3, Val 4]), (''c'', [Val 7, Val 8])]\<rparr>, rng_calls = 0, logged = []\<rparr>"
  have tn: "temp_name ''b'' = ''temp_b''" by (simp add: temp_name_def)
  have h1: "''a'' \<in> set (labels (frame st))" and h2: "''b'' \<in> set (labels (frame st))"
    by (simp_all add: st_def labels_def)
  have h3: "map_of (columns (frame st)) (temp_name ''b'') = Some [Val 5, Val 6]"
    by (simp add: st_def tn)
  have h4: "''a'' \<noteq> temp_name ''b''" and h5: "''a'' \<noteq> ''b''"
    by (simp_all add: tn)
  have ri: "range_index 2 = [IntLabel 0, IntLabel 1]"
    by (simp add: range_index_def upt_rec)
  have c1: "columns (store_shuffled (\<lambda>seed n. [1, 0]) (randint 0 1000 5) ''b'' (frame st))
       = [(''a'', [Val 1, Val 2]), (''temp_b'', [Val 4, Val 3]),
          (''b'', [Val 3, Val 4]), (''c'', [Val 7, Val 8])]"
    by (simp add: st_def ri store_shuffled_def setitem_renumbered_def setitem_def getitem_def
        sample_all_def align_def tn)
  have c2: "columns (frame (swap_data (\<lambda>seed n. [1, 0]) (\<lambda>k. 5) [(''a'', ''b'')] st))
       = [(''a'', [Val 4, Val 3]), (''b'', [Val 1, Val 2]), (''c'', [Val 7, Val 8])]"
    by (simp add: st_def ri swap_pair_def Let_def labels_def store_shuffled_def
        setitem_renumbered_def setitem_def drop_column_def getitem_def sample_all_def
        align_def tn)
  have c3: "''temp_b'' \<notin> set (labels (frame (swap_data (\<lambda>seed n. [1, 0]) (\<lambda>k. 5)
      [(''a'', ''b'')] st)))"
    using swap_data_drops_scratch_name [OF h1 h2 h3 h4 h5, of "\<lambda>seed n. [1, 0]" "\<lambda>k. 5" "[]"]
    unfolding tn by blast
  show ?thesis
    using h1 h2 h3 h4 h5 c1 c2 c3 unfolding st_def by simp
qed

text \<open>
  Claim C6 at its failing input: the column \<open>temp_b\<close> is named in no pair of the
  configuration \<open>[(a, b)]\<close> and is present in the input, and it is absent from the
  output, whatever order is drawn.
\<close>

theorem swap_data_untouched_columns_failing_input:
  "''temp_b'' \<notin> fst ` set [(''a'', ''b'')] \<and> ''temp_b'' \<notin> snd ` set [(''a'', ''b'')]
   \<and> map_of (columns \<lparr>row_index = range_index 2,
        columns = [(''a'', [Val 1, Val (2 :: int)]), (''b'', [Val 3, Val 4]),
        (''temp_b'', [Val 5, Val 6])]\<rparr>) ''temp_b'' = Some [Val 5, Val 6]
   \<and> (\<forall>smp gen. map_of (columns (frame (swap_data smp gen [(''a'', ''b'')]
        \<lparr>frame = \<lparr>row_index = range_index 2,
          columns = [(''a'', [Val 1, Val (2 :: int)]), (''b'', [Val 3, Val 4]),
          (''temp_b'', [Val 5, Val 6])]\<rparr>, rng_calls = 0, logged = []\<rparr>))) ''temp_b'' = None)"
  by (simp add: swap_pair_def Let_def labels_def temp_name_def setitem_def drop_column_def
      getitem_def store_shuffled_def setitem_renumbered_def)

subsection \<open>A pair that names a missing column\<close>

text \<open>
  Claim C5, as amended. When either name of a pair is not a column of the current frame,
  the pair is skipped: the frame is unchanged, no random number is drawn, one record is
  logged at level \<open>ERROR\<close> (not \<open>WARNING\<close>) whose message names both columns of the
  pair, and the run continues with the remaining pairs.
\<close>

theorem swap_data_skips_missing:
  assumes "col1 \<notin> set (labels (frame st)) \<or> col2 \<notin> set (labels (frame st))"
  shows "swap_data smp gen ((col1, col2) # ps) st
           = swap_data smp gen ps (st\<lparr>logged := logged st @ [(ERROR, not_found_msg col1 col2)]\<rparr>)
       \<and> frame (swap_pair smp gen (col1, col2) st) = frame st
       \<and> rng_calls (swap_pair smp gen (col1, col2) st) = rng_calls st
       \<and> logged (swap_pair smp gen (col1, col2) st)
           = logged st @ [(ERROR, not_found_msg col1 col2)]"
  by (simp add: swap_pair_skip [OF assms])

theorem swap_data_skips_missing_witness:
  "''zipcode'' \<notin> set (labels (frame \<lparr>frame = \<lparr>row_index = range_index 2,
        columns = [(''name'', [Val 1, Val (2 :: int)]), (''age'', [Val 30, Val 41])]\<rparr>,
        rng_calls = 0, logged = []\<rparr>))
   \<and> columns (frame (swap_data (\<lambda>seed n. [1, 0]) (\<lambda>k. 5)
        [(''zipcode'', ''age''), (''name'', ''age'')]
        \<lparr>frame = \<lparr>row_index = range_index 2,
           columns = [(''name'', [Val 1, Val (2 :: int)]), (''age'', [Val 30, Val 41])]\<rparr>,
         rng_calls = 0, logged = []\<rparr>))
      = [(''name'', [Val 41, Val 30]), (''age'', [Val 1, Val 2])]
   \<and> map fst (logged (swap_data (\<lambda>seed n. [1, 0]) (\<lambda>k. 5)
        [(''zipcode'', ''age''), (''name'', ''age'')]
        \<lparr>frame = \<lparr>row_index = range_index 2,
           columns = [(''name'', [Val 1, Val (2 :: int)]), (''age'', [Val 30, Val 41])]\<rparr>,
         rng_calls = 0, logged = []\<rparr>)) = [ERROR, INFO]"
proof -
  define st :: "int run" where "st = \<lparr>frame = \<lparr>row_index = range_index 2,
        columns = [(''name'', [Val 1, Val 2]), (''age'', [Val 30, Val 41])]\<rparr>,
        rng_calls = 0, logged = []\<rparr>"
  have h: "''zipcode'' \<notin> set (labels (frame st)) \<or> ''age'' \<notin> set (labels (frame st))"
    by (simp add: st_def labels_def)
  have ri: "range_index 2 = [IntLabel 0, IntLabel 1]"
    by (simp add: range_index_def upt_rec)
  have e: "swap_data (\<lambda>seed n. [1, 0]) (\<lambda>k. 5) [(''zipcode'', ''age''), (''name'', ''age'')] st
      = swap_data (\<lambda>seed n. [1, 0]) (\<lambda>k. 5) [(''name'', ''age'')]
          (st\<lparr>logged := logged st @ [(ERROR, not_found_msg ''zipcode'' ''age'')]\<rparr>)"
    using swap_data_skips_missing [OF h] by simp
  have "columns (frame (swap_data (\<lambda>seed n. [1, 0]) (\<lambda>k. 5) [(''name'', ''age'')]
          (st\<lparr>logged := logged st @ [(ERROR, not_found_msg ''zipcode'' ''age'')]\<rparr>)))
      = [(''name'', [Val 41, Val 30]), (''age'', [Val 1, Val 2])]"
    by (simp add: st_def ri swap_pair_def Let_def labels_def temp_name_def setitem_def
        drop_column_def getitem_def sample_all_def store_shuffled_def setitem_renumbered_def
        align_def)
  moreover have "map fst (logged (swap_data (\<lambda>seed n. [1, 0]) (\<lambda>k. 5) [(''name'', ''age'')]
          (st\<lparr>logged := logged st @ [(ERROR, not_found_msg ''zipcode'' ''age'')]\<rparr>)))
      = [ERROR, INFO]"
    by (simp add: st_def swap_pair_def Let_def labels_def)
  moreover have "''zipcode'' \<notin> set (labels (frame st))"
    by (simp add: st_def labels_def)
  ultimately show ?thesis unfolding e [symmetric] unfolding st_def by simp
qed

text \<open>
  Claim C5 as written fails on the level of the diagnostic: for a pair naming the missing
  column \<open>zipcode\<close> the only record logged has level \<open>ERROR\<close>; nothing is logged at
  level \<open>WARNING\<close>.
\<close>

theorem swap_data_skips_missing_counterexample:
  "\<forall>smp gen. logged (swap_data smp gen [(''zipcode'', ''age'')]
        \<lparr>frame = \<lparr>row_index = range_index 2,
           columns = [(''name'', [Val 1, Val (2 :: int)]), (''age'', [Val 30, Val 41])]\<rparr>,
         rng_calls = 0, logged = []\<rparr>)
      = [(ERROR, not_found_msg ''zipcode'' ''age'')]
    \<and> WARNING \<notin> fst ` set (logged (swap_data smp gen [(''zipcode'', ''age'')]
        \<lparr>frame = \<lparr>row_index = range_index 2,
           columns = [(''name'', [Val 1, Val (2 :: int)]), (''age'', [Val 30, Val 41])]\<rparr>,
         rng_calls = 0, logged = []\<rparr>))"
  by (simp add: swap_pair_def labels_def)

subsection \<open>Row count\<close>

text \<open>
  Claim C7. \<open>swap_data\<close> never changes the row count: for a well-formed frame and any
  list of pairs, the frame returned has the same number of rows (the same index), and
  is well formed, so each of its columns has that many cells.
\<close>

theorem swap_data_rows:
  assumes "wf_frame (frame st)"
  shows "nrows (frame (swap_data smp gen ps st)) = nrows (frame st)
       \<and> wf_frame (frame (swap_data smp gen ps st))
       \<and> row_index (frame (swap_data smp gen ps st)) = row_index (frame st)"
  using assms
proof (induction ps arbitrary: st)
  case Nil
  then show ?case by simp
next
  case (Cons p ps)
  have s: "wf_frame (frame (swap_pair smp gen p st))"
    using Cons.prems by (rule swap_pair_wf)
  have i: "row_index (frame (swap_pair smp gen p st)) = row_index (frame st)"
    by (rule swap_pair_row_index)
  show ?case using Cons.IH [OF s] i by (simp add: nrows_def)
qed

theorem swap_data_rows_witness:
  "wf_frame (frame \<lparr>frame = \<lparr>row_index = [IntLabel 0, IntLabel 2, IntLabel 5],
        columns = [(''name'', [Val 1, Val 2, Val (3 :: int)]),
          (''age'', [Val 30, Val 41, Val 52]), (''city'', [Val 7, Val 8, Val 9])]\<rparr>,
        rng_calls = 0, logged = []\<rparr>)
   \<and> nrows (frame (swap_data (\<lambda>seed n. [2, 1, 0]) (\<lambda>k. 5) [(''age'', ''city''), (''x'', ''y'')]
        \<lparr>frame = \<lparr>row_index = [IntLabel 0, IntLabel 2, IntLabel 5],
        columns = [(''name'', [Val 1, Val 2, Val (3 :: int)]),
          (''age'', [Val 30, Val 41, Val 52]), (''city'', [Val 7, Val 8, Val 9])]\<rparr>,
        rng_calls = 0, logged = []\<rparr>)) = 3
   \<and> wf_frame (frame (swap_data (\<lambda>seed n. [2, 1, 0]) (\<lambda>k. 5) [(''age'', ''city''), (''x'', ''y'')]
        \<lparr>frame = \<lparr>row_index = [IntLabel 0, IntLabel 2, IntLabel 5],
        columns = [(''name'', [Val 1, Val 2, Val (3 :: int)]),
          (''age'', [Val 30, Val 41, Val 52]), (''city'', [Val 7, Val 8, Val 9])]\<rparr>,
        rng_calls = 0, logged = []\<rparr>))
   \<and> columns (frame (swap_data (\<lambda>seed n. [2, 1, 0]) (\<lambda>k. 5) [(''age'', ''city''), (''x'', ''y'')]
        \<lparr>frame = \<lparr>row_index = [IntLabel 0, IntLabel 2, IntLabel 5],
        columns = [(''name'', [Val 1, Val 2, Val (3 :: int)]),
          (''age'', [Val 30, Val 41, Val 52]), (''city'', [Val 7, Val 8, Val 9])]\<rparr>,
        rng_calls = 0, logged = []\<rparr>))
      = [(''name'', [Val 1, Val 2, Val 3]), (''age'', [Val 9, Val 7, NaN]),
         (''city'', [Val 30, Val 41, Val 52])]"
proof -
  define st :: "int run" where "st = \<lparr>frame = \<lparr>row_index = [IntLabel 0, IntLabel 2, IntLabel 5],
        columns = [(''name'', [Val 1, Val 2, Val 3]),
          (''age'', [Val 30, Val 41, Val 52]), (''city'', [Val 7, Val 8, Val 9])]\<rparr>,
        rng_calls = 0, logged = []\<rparr>"
  have h: "wf_frame (frame st)" by (simp add: st_def wf_frame_def labels_def nrows_def)
  have n: "nrows (frame st) = 3" by (simp add: st_def nrows_def)
  have c: "columns (frame (swap_data (\<lambda>seed n. [2, 1, 0]) (\<lambda>k. 5)
        [(''age'', ''city''), (''x'', ''y'')] st))
      = [(''name'', [Val 1, Val 2, Val 3]), (''age'', [Val 9, Val 7, NaN]),
         (''city'', [Val 30, Val 41, Val 52])]"
    by (simp add: st_def swap_pair_def Let_def labels_def temp_name_def setitem_def
        drop_column_def getitem_def sample_all_def store_shuffled_def setitem_renumbered_def
        align_def)
  show ?thesis
    using swap_data_rows [OF h, of "\<lambda>seed n. [2, 1, 0]" "\<lambda>k. 5" "[(''age'', ''city''), (''x'', ''y'')]"]
      h c
    unfolding n unfolding st_def by simp
qed

subsection \<open>Order of the pairs\<close>

text \<open>
  Claim C4. \<open>swap_data\<close> is a left-to-right fold over the pairs: running \<open>ps @ qs\<close> is
  running \<open>qs\<close> on the result of \<open>ps\<close>. A later pair reads what an earlier pair wrote:
  after \<open>[(a, b), (b, c)]\<close> the column \<open>c\<close> holds the values \<open>a\<close> had at the start (they
  passed through \<open>b\<close>), while after \<open>[(b, c), (a, b)]\<close> it holds the values \<open>b\<close> had. So
  the two orders give different frames whenever \<open>a\<close> and \<open>b\<close> differ at the start.
\<close>

theorem swap_data_in_order:
  assumes "a \<in> set (labels (frame st))" and "b \<in> set (labels (frame st))"
    and "c \<in> set (labels (frame st))"
    and "a \<noteq> b" and "b \<noteq> c" and "a \<noteq> c"
    and "a \<noteq> temp_name b" and "c \<noteq> temp_name b" and "b \<noteq> temp_name c"
  shows "swap_data smp gen (ps @ qs) st = swap_data smp gen qs (swap_data smp gen ps st)
       \<and> getitem (frame (swap_data smp gen [(a, b), (b, c)] st)) c = getitem (frame st) a
       \<and> getitem (frame (swap_data smp gen [(b, c), (a, b)] st)) c = getitem (frame st) b
       \<and> (getitem (frame st) a \<noteq> getitem (frame st) b \<longrightarrow>
            frame (swap_data smp gen [(a, b), (b, c)] st)
              \<noteq> frame (swap_data smp gen [(b, c), (a, b)] st))"
proof -
  let ?m = "\<lambda>s. map_of (columns (frame s))"
  let ?s1 = "swap_pair smp gen (a, b) st"
  let ?s2 = "swap_pair smp gen (b, c) st"
  have b1: "?m ?s1 b = ?m st a"
    using assms(1,2,4,7) by (rule swap_pair_col2)
  have c1: "?m ?s1 c = ?m st c"
    using assms(6) assms(5) assms(8) by (intro swap_pair_untouched) auto
  have in1: "b \<in> set (labels (frame ?s1))" "c \<in> set (labels (frame ?s1))"
    using assms(1,3) b1 c1 by (simp_all add: in_labels_iff)
  have "?m (swap_pair smp gen (b, c) ?s1) c = ?m ?s1 b"
    using in1 assms(5,9) by (rule swap_pair_col2)
  then have first: "?m (swap_data smp gen [(a, b), (b, c)] st) c = ?m st a"
    using b1 by simp
  have c2: "?m ?s2 c = ?m st b"
    using assms(2,3,5,9) by (rule swap_pair_col2)
  have "?m (swap_pair smp gen (a, b) ?s2) c = ?m ?s2 c"
    using assms(6) assms(5) assms(8) by (intro swap_pair_untouched) auto
  then have second: "?m (swap_data smp gen [(b, c), (a, b)] st) c = ?m st b"
    using c2 by simp
  have g1: "getitem (frame (swap_data smp gen [(a, b), (b, c)] st)) c = getitem (frame st) a"
    unfolding getitem_def first ..
  have g2: "getitem (frame (swap_data smp gen [(b, c), (a, b)] st)) c = getitem (frame st) b"
    unfolding getitem_def second ..
  have app: "swap_data smp gen (ps @ qs) st = swap_data smp gen qs (swap_data smp gen ps st)"
    by (rule swap_data_append)
  have diff: "frame (swap_data smp gen [(a, b), (b, c)] st)
      \<noteq> frame (swap_data smp gen [(b, c), (a, b)] st)"
    if ne: "getitem (frame st) a \<noteq> getitem (frame st) b"
  proof
    assume "frame (swap_data smp gen [(a, b), (b, c)] st)
      = frame (swap_data smp gen [(b, c), (a, b)] st)"
    then have "getitem (frame (swap_data smp gen [(a, b), (b, c)] st)) c
      = getitem (frame (swap_data smp gen [(b, c), (a, b)] st)) c"
      by (rule arg_cong)
    then show False using ne unfolding g1 g2 by simp
  qed
  show ?thesis using app g1 g2 diff by blast
qed

theorem swap_data_in_order_witness:
  "''A'' \<in> set (labels (frame \<lparr>frame = \<lparr>row_index = range_index 2,
        columns = [(''A'', [Val 1, Val (2 :: int)]), (''B'', [Val 3, Val 4]),
          (''C'', [Val 5, Val 6])]\<rparr>, rng_calls = 0, logged = []\<rparr>))
   \<and> ''B'' \<in> set (labels (frame \<lparr>frame = \<lparr>row_index = range_index 2,
        columns = [(''A'', [Val 1, Val (2 :: int)]), (''B'', [Val 3, Val 4]),
          (''C'', [Val 5, Val 6])]\<rparr>, rng_calls = 0, logged = []\<rparr>))
   \<and> ''C'' \<in> set (labels (frame \<lparr>frame = \<lparr>row_index = range_index 2,
        columns = [(''A'', [Val 1, Val (2 :: int)]), (''B'', [Val 3, Val 4]),
          (''C'', [Val 5, Val 6])]\<rparr>, rng_calls = 0, logged = []\<rparr>))
   \<and> ''A'' \<noteq> ''B'' \<and> ''B'' \<noteq> ''C'' \<and> ''A'' \<noteq> ''C''
   \<and> ''A'' \<noteq> temp_name ''B'' \<and> ''C'' \<noteq> temp_name ''B'' \<and> ''B'' \<noteq> temp_name ''C''
   \<and> getitem (frame (swap_data (\<lambda>seed n. [1, 0]) (\<lambda>k. k) [(''A'', ''B''), (''B'', ''C'')]
        \<lparr>frame = \<lparr>row_index = range_index 2,
        columns = [(''A'', [Val 1, Val (2 :: int)]), (''B'', [Val 3, Val 4]),
          (''C'', [Val 5, Val 6])]\<rparr>, rng_calls = 0, logged = []\<rparr>)) ''C'' = [Val 1, Val 2]
   \<and> getitem (frame (swap_data (\<lambda>seed n. [1, 0]) (\<lambda>k. k) [(''B'', ''C''), (''A'', ''B'')]
        \<lparr>frame = \<lparr>row_index = range_index 2,
        columns = [(''A'', [Val 1, Val (2 :: int)]), (''B'', [Val 3, Val 4]),
          (''C'', [Val 5, Val 6])]\<rparr>, rng_calls = 0, logged = []\<rparr>)) ''C'' = [Val 3, Val 4]
   \<and> frame (swap_data (\<lambda>seed n. [1, 0]) (\<lambda>k. k) [(''A'', ''B''), (''B'', ''C'')]
        \<lparr>frame = \<lparr>row_index = range_index 2,
        columns = [(''A'', [Val 1, Val (2 :: int)]), (''B'', [Val 3, Val 4]),
          (''C'', [Val 5, Val 6])]\<rparr>, rng_calls = 0, logged = []\<rparr>)
      \<noteq> frame (swap_data (\<lambda>seed n. [1, 0]) (\<lambda>k. k) [(''B'', ''C''), (''A'', ''B'')]
        \<lparr>frame = \<lparr>row_index = range_index 2,
        columns = [(''A'', [Val 1, Val (2 :: int)]), (''B'', [Val 3, Val 4]),
          (''C'', [Val 5, Val 6])]\<rparr>, rng_calls = 0, logged = []\<rparr>)"
proof -
  define st :: "int run" where "st = \<lparr>frame = \<lparr>row_index = range_index 2,
        columns = [(''A'', [Val 1, Val 2]), (''B'', [Val 3, Val 4]),
          (''C'', [Val 5, Val 6])]\<rparr>, rng_calls = 0, logged = []\<rparr>"
  have h1: "''A'' \<in> set (labels (frame st))" and h2: "''B'' \<in> set (labels (frame st))"
    and h3: "''C'' \<in> set (labels (frame st))"
    by (simp_all add: st_def labels_def)
  have h4: "''A'' \<noteq> ''B''" and h5: "''B'' \<noteq> ''C''" and h6: "''A'' \<noteq> ''C''"
    by simp_all
  have h7: "''A'' \<noteq> temp_name ''B''" and h8: "''C'' \<noteq> temp_name ''B''"
    and h9: "''B'' \<noteq> temp_name ''C''"
    by (simp_all add: temp_name_def)
  have g: "getitem (frame st) ''A'' = [Val 1, Val 2]" "getitem (frame st) ''B'' = [Val 3, Val 4]"
    by (simp_all add: st_def getitem_def)
  have ne: "getitem (frame st) ''A'' \<noteq> getitem (frame st) ''B''"
    unfolding g by simp
  note inst = swap_data_in_order [OF h1 h2 h3 h4 h5 h6 h7 h8 h9,
      of "\<lambda>seed n. [1, 0]" "\<lambda>k. k" "[]" "[]"]
  have r1: "getitem (frame (swap_data (\<lambda>seed n. [1, 0]) (\<lambda>k. k)
      [(''A'', ''B''), (''B'', ''C'')] st)) ''C'' = [Val 1, Val 2]"
    using inst g(1) by metis
  have r2: "getitem (frame (swap_data (\<lambda>seed n. [1, 0]) (\<lambda>k. k)
      [(''B'', ''C''), (''A'', ''B'')] st)) ''C'' = [Val 3, Val 4]"
    using inst g(2) by metis
  have r3: "frame (swap_data (\<lambda>seed n. [1, 0]) (\<lambda>k. k) [(''A'', ''B''), (''B'', ''C'')] st)
      \<noteq> frame (swap_data (\<lambda>seed n. [1, 0]) (\<lambda>k. k) [(''B'', ''C''), (''A'', ''B'')] st)"
    using inst ne by blast
  show ?thesis
    using h1 h2 h3 h4 h5 h6 h7 h8 h9 r1 r2 r3 unfolding st_def by blast
qed

section \<open>Properties of \<open>validate_config\<close> and \<open>main\<close>\<close>

subsection \<open>The branches of \<open>main\<close>\<close>

lemma check_pairs_iff:
  "check_pairs ps \<longleftrightarrow> list_all (\<lambda>p. \<exists>x y. p = YList [x, y]) ps"
proof (induction ps)
  case Nil
  show ?case by simp
next
  case (Cons p ps)
  have "(\<exists>x y. xs = [x, y]) \<longleftrightarrow> length xs = 2" for xs :: "yaml list"
    by (cases xs; cases "tl xs"; cases "tl (tl xs)") auto
  then show ?case using Cons.IH by (cases p) auto
qed

lemma validate_config_iff:
  "fst (validate_config config) \<longleftrightarrow>
     (\<exists>items ps. config = YDict items
        \<and> map_of items (YStr ''columns_to_swap'') = Some (YList ps)
        \<and> list_all (\<lambda>p. \<exists>x y. p = YList [x, y]) ps)"
  by (auto simp add: validate_config_def check_pairs_iff split: yaml.splits option.splits)




lemma main_invalid_config:
  assumes "load_config e = Inr config" and "\<not> fst (validate_config config)"
  shows "main smp gen e
    = \<lparr>out_log = [(INFO, ''Starting dm-data-attribute-swapper'')] @ snd (validate_config config)
         @ [(ERROR, ''Invalid configuration file. Exiting.'')],
       written = None\<rparr>"
  using assms by (simp add: main_def Let_def)




subsection \<open>Fatal conditions\<close>




subsection \<open>Validation of the configuration\<close>

text \<open>
  Claim C9, as amended. \<open>validate_config\<close> succeeds if and only if the configuration is
  a dictionary with the key \<open>columns_to_swap\<close> whose value is a list, each element of
  which is a list of two elements; the two elements may be of any type. When validation
  fails, \<open>main\<close> logs the error and writes no output.
\<close>

theorem validate_config_shape:
  "(fst (validate_config config) \<longleftrightarrow>
     (\<exists>items ps. config = YDict items
        \<and> map_of items (YStr ''columns_to_swap'') = Some (YList ps)
        \<and> list_all (\<lambda>p. \<exists>x y. p = YList [x, y]) ps))
   \<and> (load_config e = Inr config \<and> \<not> fst (validate_config config) \<longrightarrow>
        written (main smp gen e) = None
        \<and> out_log (main smp gen e)
            = [(INFO, ''Starting dm-data-attribute-swapper'')] @ snd (validate_config config)
               @ [(ERROR, ''Invalid configuration file. Exiting.'')])"
proof -
  have "written (main smp gen e) = None
        \<and> out_log (main smp gen e)
            = [(INFO, ''Starting dm-data-attribute-swapper'')] @ snd (validate_config config)
               @ [(ERROR, ''Invalid configuration file. Exiting.'')]"
    if "load_config e = Inr config" and "\<not> fst (validate_config config)"
    unfolding main_invalid_config [OF that] by simp
  then show ?thesis using validate_config_iff [of config] by blast
qed

theorem validate_config_shape_witness:
  "fst (validate_config (YDict [(YStr ''columns_to_swap'',
        YList [YList [YStr ''age'', YStr ''city'']])]))
   \<and> \<not> fst (validate_config (YDict [(YStr ''columns_to_swap'', YStr ''age, city'')]))
   \<and> written (main (\<lambda>seed n. [0]) (\<lambda>k. 5)
      \<lparr>data_file = ''people.csv'', config_file = ''config.yaml'',
       output_file = ''masked_data.csv'',
       load_config = Inr (YDict [(YStr ''columns_to_swap'', YStr ''age, city'')]),
       file_extension = ''.csv'',
       read_csv = Inr \<lparr>row_index = range_index 1,
          columns = [(''age'', [Val (30 :: int)]), (''city'', [Val 7])]\<rparr>,
       read_excel = Inl (OtherError ''not read''),
       swap_other_names = (\<lambda>d ps lg. Inl (OtherError ''not called''))\<rparr>) = None
   \<and> out_log (main (\<lambda>seed n. [0]) (\<lambda>k. 5)
      \<lparr>data_file = ''people.csv'', config_file = ''config.yaml'',
       output_file = ''masked_data.csv'',
       load_config = Inr (YDict [(YStr ''columns_to_swap'', YStr ''age, city'')]),
       file_extension = ''.csv'',
       read_csv = Inr \<lparr>row_index = range_index 1,
          columns = [(''age'', [Val (30 :: int)]), (''city'', [Val 7])]\<rparr>,
       read_excel = Inl (OtherError ''not read''),
       swap_other_names = (\<lambda>d ps lg. Inl (OtherError ''not called''))\<rparr>)
     = [(INFO, ''Starting dm-data-attribute-swapper''), (ERROR, must_be_list_msg),
        (ERROR, ''Invalid configuration file. Exiting.'')]"
proof -
  define e :: "int env" where "e = \<lparr>data_file = ''people.csv'', config_file = ''config.yaml'',
       output_file = ''masked_data.csv'',
       load_config = Inr (YDict [(YStr ''columns_to_swap'', YStr ''age, city'')]),
       file_extension = ''.csv'',
       read_csv = Inr \<lparr>row_index = range_index 1,
          columns = [(''age'', [Val (30 :: int)]), (''city'', [Val 7])]\<rparr>,
       read_excel = Inl (OtherError ''not read''),
       swap_other_names = (\<lambda>d ps lg. Inl (OtherError ''not called''))\<rparr>"
  have v: "validate_config (YDict [(YStr ''columns_to_swap'', YStr ''age, city'')])
      = (False, [(ERROR, must_be_list_msg)])"
    by (simp add: validate_config_def)
  have h1: "load_config e = Inr (YDict [(YStr ''columns_to_swap'', YStr ''age, city'')])"
    by (simp add: e_def)
  have h2: "\<not> fst (validate_config (YDict [(YStr ''columns_to_swap'', YStr ''age, city'')]))"
    by (simp add: v)
  have ok: "fst (validate_config (YDict [(YStr ''columns_to_swap'',
        YList [YList [YStr ''age'', YStr ''city'']])]))"
    by (simp add: validate_config_def)
  have "written (main (\<lambda>seed n. [0]) (\<lambda>k. 5) e) = None
      \<and> out_log (main (\<lambda>seed n. [0]) (\<lambda>k. 5) e)
            = [(INFO, ''Starting dm-data-attribute-swapper'')]
               @ snd (validate_config (YDict [(YStr ''columns_to_swap'', YStr ''age, city'')]))
               @ [(ERROR, ''Invalid configuration file. Exiting.'')]"
    using validate_config_shape [of "YDict [(YStr ''columns_to_swap'', YStr ''age, city'')]" e
        "\<lambda>seed n. [0]" "\<lambda>k. 5"] h1 h2
    by blast
  then show ?thesis using ok h2 unfolding v e_def by simp
qed

text \<open>
  Claim C9 as written fails on the type of the names: a pair of two integers passes
  validation, although it is not a pair of column-name strings.
\<close>

theorem validate_config_shape_counterexample:
  "fst (validate_config (YDict [(YStr ''columns_to_swap'', YList [YList [YInt 1, YInt 2]])]))
   \<and> config_names [YList [YInt 1, YInt 2]] = None"
  by (simp add: validate_config_def)

end
